theory Spec2Isabelle
  imports Complex_Main
begin

section \<open>The answer service of the Touch Bar coding assistant\<close>

text \<open>
  This theory embeds \<^verbatim>\<open>app/azure_service.py\<close> (class \<^verbatim>\<open>AzureOpenAIService\<close>) and the
  part of \<^verbatim>\<open>app/config.py\<close> it reads. The Python is sequential here: every coroutine is
  awaited where it is called, so \<^verbatim>\<open>async\<close>/\<^verbatim>\<open>await\<close> is plain function application.
  Effects are explicit: a function takes the process state and returns its result with the
  new state; a raised exception is \<open>Inl\<close>, a returned value is \<open>Inr\<close>. Logging is
  left out (it changes nothing the service reads). Only subclasses of \<^verbatim>\<open>Exception\<close> are
  modelled, which is what the \<^verbatim>\<open>except Exception\<close> clauses of the source catch.
\<close>

subsection \<open>Python values: exceptions and string operations\<close>

text \<open>
  A character of a \<open>string\<close> stands for one character of a Python \<^verbatim>\<open>str\<close>, so
  \<open>length\<close> is Python's \<^verbatim>\<open>len\<close>.
\<close>

datatype exn =
    ValueError string
  | RuntimeError string
  | TypeError string
  | IndexError string
  | RetryError exn
  | Exception string

text \<open>The class name of an exception and \<^verbatim>\<open>str(e)\<close>. For tenacity's \<^verbatim>\<open>RetryError\<close> the text
  is the \<^verbatim>\<open>repr\<close> of the last attempt's future, whose memory address is left out.\<close>

fun class_name :: "exn \<Rightarrow> string" where
  "class_name (ValueError m) = ''ValueError''"
| "class_name (RuntimeError m) = ''RuntimeError''"
| "class_name (TypeError m) = ''TypeError''"
| "class_name (IndexError m) = ''IndexError''"
| "class_name (RetryError e) = ''RetryError''"
| "class_name (Exception m) = ''Exception''"

fun str_exn :: "exn \<Rightarrow> string" where
  "str_exn (ValueError m) = m"
| "str_exn (RuntimeError m) = m"
| "str_exn (TypeError m) = m"
| "str_exn (IndexError m) = m"
| "str_exn (RetryError e) = ''RetryError[<Future state=finished raised '' @ class_name e @ ''>]''"
| "str_exn (Exception m) = m"

text \<open>\<^verbatim>\<open>xs[:k]\<close>: a negative \<open>k\<close> counts from the end, and the slice never raises.\<close>

definition py_slice_to :: "'a list \<Rightarrow> int \<Rightarrow> 'a list" where
  "py_slice_to xs k =
     (if 0 \<le> k then take (nat k) xs else take (nat (int (length xs) + k)) xs)"

text \<open>\<^verbatim>\<open>s.startswith(p)\<close>, \<^verbatim>\<open>s.endswith(p)\<close>, \<^verbatim>\<open>p in s\<close>, \<^verbatim>\<open>s.split(sep)[0]\<close> for a
  non-empty \<open>sep\<close>, \<^verbatim>\<open>s.rstrip("/")\<close> and \<^verbatim>\<open>sep.join(xs)\<close>.\<close>

definition py_startswith :: "string \<Rightarrow> string \<Rightarrow> bool" where
  "py_startswith s p = (take (length p) s = p)"

definition py_endswith :: "string \<Rightarrow> string \<Rightarrow> bool" where
  "py_endswith s p = (length p \<le> length s \<and> drop (length s - length p) s = p)"

fun py_contains :: "string \<Rightarrow> string \<Rightarrow> bool" where
  "py_contains p [] = (p = [])"
| "py_contains p (c # cs) = (py_startswith (c # cs) p \<or> py_contains p cs)"

fun py_split_first :: "string \<Rightarrow> string \<Rightarrow> string" where
  "py_split_first sep [] = []"
| "py_split_first sep (c # cs) =
     (if py_startswith (c # cs) sep then [] else c # py_split_first sep cs)"

definition py_rstrip_slash :: "string \<Rightarrow> string" where
  "py_rstrip_slash s = rev (dropWhile (\<lambda>c. c = CHR ''/'') (rev s))"

fun py_join :: "string \<Rightarrow> string list \<Rightarrow> string" where
  "py_join sep [] = []"
| "py_join sep [x] = x"
| "py_join sep (x # y # ys) = x @ sep @ py_join sep (y # ys)"

subsection \<open>Configuration (\<^verbatim>\<open>app/config.py\<close>)\<close>

text \<open>
  \<^verbatim>\<open>Settings\<close> is a pydantic \<^verbatim>\<open>BaseSettings\<close>: every field can be set from the environment or
  the \<^verbatim>\<open>.env\<close> file, so the service is verified for an arbitrary settings value. The four
  Azure fields are declared \<^verbatim>\<open>str\<close>; a variable that is not set arrives as \<^verbatim>\<open>""\<close>
  (\<^verbatim>\<open>os.getenv(..., "")\<close>), except the API version, whose default is not empty. The
  display fields that the service never reads are not part of the record.
\<close>

record settings =
  AZURE_OPENAI_API_KEY :: string
  AZURE_OPENAI_ENDPOINT :: string
  AZURE_OPENAI_DEPLOYMENT_NAME :: string
  AZURE_OPENAI_API_VERSION :: string
  MAX_ANSWER_LENGTH :: int
  MAX_TOKENS :: int
  TEMPERATURE :: rat




subsection \<open>Clients, requests, the outside world and the process state\<close>

record message =
  role :: string
  content :: string

datatype client =
    AzureOpenAI (api_version: string) (azure_endpoint: string) (api_key: string)
      (timeout: rat)
  | AzureChatOpenAI (azure_deployment: string) (openai_api_version: string)
      (azure_endpoint: string) (api_key: string) (temperature: rat)
      (request_timeout: rat) (model: string)

text \<open>An outbound call: \<^verbatim>\<open>client.chat.completions.create(...)\<close> on a raw client, or
  \<^verbatim>\<open>client.invoke(messages)\<close> on a LangChain model.\<close>

datatype request =
    ChatCompletionsCreate (via: client) (messages: "message list") (max_tokens: int)
      (req_temperature: rat) (top_p: rat) (req_model: string) (req_timeout: rat)
  | Invoke (via: client) (messages: "message list")

text \<open>
  The world is what the code cannot decide: which optional libraries were importable when
  the module was loaded, and how the endpoint answers. The answer to an outbound call may
  depend on how many calls were made before it and on the request. A raw completion
  answers with the contents of its choices (\<^verbatim>\<open>response.choices[i].message.content\<close>, which
  may be \<^verbatim>\<open>None\<close>); an invoke answers with \<^verbatim>\<open>response.content\<close>.
\<close>

record world =
  TENACITY_AVAILABLE :: bool
  LANGCHAIN_AVAILABLE :: bool
  chat_completions_create :: "nat \<Rightarrow> request \<Rightarrow> exn + string option list"
  invoke :: "nat \<Rightarrow> request \<Rightarrow> exn + string option"

text \<open>The state: \<^verbatim>\<open>os.environ\<close>, the outbound calls made so far, oldest first, and the
  delays slept by the retry decorator, in seconds.\<close>

record state =
  environ :: "string \<rightharpoonup> string"
  calls :: "request list"
  sleeps :: "int list"

definition outbound_create ::
  "world \<Rightarrow> request \<Rightarrow> state \<Rightarrow> (exn + string option list) \<times> state" where
  "outbound_create w req st =
     (chat_completions_create w (length (calls st)) req, st\<lparr>calls := calls st @ [req]\<rparr>)"

definition outbound_invoke ::
  "world \<Rightarrow> request \<Rightarrow> state \<Rightarrow> (exn + string option) \<times> state" where
  "outbound_invoke w req st =
     (invoke w (length (calls st)) req, st\<lparr>calls := calls st @ [req]\<rparr>)"

text \<open>
  Building a client object makes no call. \<^verbatim>\<open>AzureChatOpenAI\<close> is LangChain's class when
  the import succeeded; otherwise it is the module's dummy class with an empty body, and
  calling it with keyword arguments raises \<^verbatim>\<open>TypeError\<close>.
\<close>

definition new_AzureChatOpenAI ::
  "world \<Rightarrow> string \<Rightarrow> string \<Rightarrow> string \<Rightarrow> string \<Rightarrow> rat \<Rightarrow> rat \<Rightarrow> string \<Rightarrow> exn + client" where
  "new_AzureChatOpenAI w deployment version endpoint key temp tmo mdl =
     (if LANGCHAIN_AVAILABLE w
      then Inr (AzureChatOpenAI deployment version endpoint key temp tmo mdl)
      else Inl (TypeError ''AzureChatOpenAI() takes no arguments''))"

text \<open>\<^verbatim>\<open>hasattr(client, "invoke")\<close>\<close>

fun hasattr_invoke :: "client \<Rightarrow> bool" where
  "hasattr_invoke (AzureChatOpenAI d v e k t r m) = True"
| "hasattr_invoke (AzureOpenAI v e k t) = False"

subsection \<open>The retry decorator\<close>

text \<open>
  With tenacity, \<^verbatim>\<open>wait_exponential(multiplier, min, max)\<close> waits
  \<^verbatim>\<open>max(max(0, min), min(multiplier * 2 ** (attempt_number - 1), max))\<close> seconds after
  attempt \<open>attempt_number\<close>, and \<^verbatim>\<open>retry(stop=stop_after_attempt(n), wait=...)\<close> calls the
  function again after every exception until attempt \<open>n\<close> has failed, then raises
  \<^verbatim>\<open>RetryError\<close>. Without tenacity, the module's own \<^verbatim>\<open>retry\<close> returns the function
  unchanged.
\<close>

definition wait_exponential :: "int \<Rightarrow> int \<Rightarrow> int \<Rightarrow> nat \<Rightarrow> int" where
  "wait_exponential multiplier mn mx attempt_number =
     max (max 0 mn) (min (multiplier * 2 ^ (attempt_number - 1)) mx)"

fun retry_call ::
  "nat \<Rightarrow> nat \<Rightarrow> (nat \<Rightarrow> int) \<Rightarrow> (state \<Rightarrow> (exn + 'a) \<times> state) \<Rightarrow> state \<Rightarrow> (exn + 'a) \<times> state" where
  "retry_call 0 attempt_number wait f st =
     (case f st of
        (Inr v, st') \<Rightarrow> (Inr v, st')
      | (Inl e, st') \<Rightarrow> (Inl (RetryError e), st'))"
| "retry_call (Suc remaining) attempt_number wait f st =
     (case f st of
        (Inr v, st') \<Rightarrow> (Inr v, st')
      | (Inl e, st') \<Rightarrow>
          retry_call remaining (Suc attempt_number) wait f
            (st'\<lparr>sleeps := sleeps st' @ [wait attempt_number]\<rparr>))"

definition retry ::
  "world \<Rightarrow> nat \<Rightarrow> (nat \<Rightarrow> int) \<Rightarrow> (state \<Rightarrow> (exn + 'a) \<times> state) \<Rightarrow> state \<Rightarrow> (exn + 'a) \<times> state" where
  "retry w stop_after_attempt wait f =
     (if TENACITY_AVAILABLE w then retry_call (stop_after_attempt - 1) 1 wait f else f)"

subsection \<open>\<^verbatim>\<open>_create_azure_llm_with_retry\<close>\<close>

definition test_messages :: "message list" where
  "test_messages =
     [\<lparr>role = ''system'', content = ''You are a helpful assistant.''\<rparr>,
      \<lparr>role = ''user'', content = ''Hello, are you working?''\<rparr>]"

definition test_request :: "settings \<Rightarrow> request" where
  "test_request s =
     ChatCompletionsCreate
       (AzureOpenAI (AZURE_OPENAI_API_VERSION s) (AZURE_OPENAI_ENDPOINT s)
          (AZURE_OPENAI_API_KEY s) 60)
       test_messages 5 (7 / 10) 1 (AZURE_OPENAI_DEPLOYMENT_NAME s) 60"

text \<open>The decorated body. It never reads its \<open>endpoint\<close> argument: both clients are built
  from \<^verbatim>\<open>settings.AZURE_OPENAI_ENDPOINT\<close>. Both \<^verbatim>\<open>except\<close> clauses log and re-raise.\<close>

definition create_azure_llm ::
  "world \<Rightarrow> settings \<Rightarrow> string \<Rightarrow> state \<Rightarrow> (exn + client option) \<times> state" where
  "create_azure_llm w s endpoint st =
     (case outbound_create w (test_request s) st of
        (Inl e, st') \<Rightarrow> (Inl e, st')
      | (Inr response, st') \<Rightarrow>
          (case new_AzureChatOpenAI w (AZURE_OPENAI_DEPLOYMENT_NAME s)
                  (AZURE_OPENAI_API_VERSION s) (AZURE_OPENAI_ENDPOINT s)
                  (AZURE_OPENAI_API_KEY s) (7 / 10) 60
                  (''azure/'' @ AZURE_OPENAI_DEPLOYMENT_NAME s) of
             Inl e \<Rightarrow> (Inl e, st')
           | Inr llm \<Rightarrow> (Inr (Some llm), st')))"

definition create_azure_llm_with_retry ::
  "world \<Rightarrow> settings \<Rightarrow> string \<Rightarrow> state \<Rightarrow> (exn + client option) \<times> state" where
  "create_azure_llm_with_retry w s endpoint =
     retry w 3 (wait_exponential 1 4 10) (create_azure_llm w s endpoint)"

subsection \<open>\<^verbatim>\<open>get_llm\<close>\<close>

text \<open>
  \<^verbatim>\<open>re.match(r"(https://[^/]+\.(?:openai|cognitive)\.azure\.com)(?:/.*)?", endpoint)\<close>,
  group 1. The match is anchored at the start only. \<^verbatim>\<open>[^/]+\<close> is greedy and cannot leave
  the first slash-free run after the scheme, so the engine tries its longest length first
  and, at each length, \<^verbatim>\<open>openai\<close> before \<^verbatim>\<open>cognitive\<close>; the optional tail always matches.
\<close>

fun greedy_host :: "nat \<Rightarrow> string \<Rightarrow> string option" where
  "greedy_host 0 host = None"
| "greedy_host (Suc n) host =
     (if py_startswith (drop (Suc n) host) ''.openai.azure.com''
      then Some (take (Suc n) host @ ''.openai.azure.com'')
      else if py_startswith (drop (Suc n) host) ''.cognitive.azure.com''
      then Some (take (Suc n) host @ ''.cognitive.azure.com'')
      else greedy_host n host)"

definition match_base_endpoint :: "string \<Rightarrow> string option" where
  "match_base_endpoint endpoint =
     (if py_startswith endpoint ''https://''
      then (let host = takeWhile (\<lambda>c. c \<noteq> CHR ''/'') (drop 8 endpoint)
            in map_option (\<lambda>g. ''https://'' @ g) (greedy_host (length host) host))
      else None)"

definition clean_endpoint :: "string \<Rightarrow> string" where
  "clean_endpoint endpoint =
     (case match_base_endpoint endpoint of
        Some base \<Rightarrow> base
      | None \<Rightarrow>
          if py_contains ''/deployments/'' endpoint
          then py_split_first ''/deployments/'' endpoint
          else if py_endswith endpoint ''/'' then py_rstrip_slash endpoint
          else endpoint)"

definition required_vars :: "settings \<Rightarrow> (string \<times> string) list" where
  "required_vars s =
     [(''AZURE_OPENAI_API_KEY'', AZURE_OPENAI_API_KEY s),
      (''AZURE_OPENAI_ENDPOINT'', AZURE_OPENAI_ENDPOINT s),
      (''AZURE_OPENAI_DEPLOYMENT_NAME'', AZURE_OPENAI_DEPLOYMENT_NAME s),
      (''AZURE_OPENAI_API_VERSION'', AZURE_OPENAI_API_VERSION s)]"

definition missing_vars :: "settings \<Rightarrow> string list" where
  "missing_vars s = map fst (filter (\<lambda>(k, v). v = []) (required_vars s))"

text \<open>The inner \<^verbatim>\<open>try\<close>: the \<^verbatim>\<open>RuntimeError\<close> raised for a \<^verbatim>\<open>None\<close> client is raised inside
  it, so its own \<^verbatim>\<open>except Exception\<close> clause wraps that one too.\<close>

definition get_llm_create ::
  "world \<Rightarrow> settings \<Rightarrow> string \<Rightarrow> state \<Rightarrow> (exn + client option) \<times> state" where
  "get_llm_create w s endpoint st =
     (case (case create_azure_llm_with_retry w s endpoint st of
              (Inr None, st') \<Rightarrow>
                (Inl (RuntimeError
                   ''Failed to create Azure OpenAI client after retries, returned None unexpectedly.''),
                 st')
            | (Inr (Some llm), st') \<Rightarrow> (Inr (Some llm), st')
            | (Inl e, st') \<Rightarrow> (Inl e, st')) of
        (Inr llm, st') \<Rightarrow> (Inr llm, st')
      | (Inl (RetryError e), st') \<Rightarrow>
          (Inl (RuntimeError (''Failed to create Azure OpenAI client after retries: ''
                  @ str_exn (RetryError e))), st')
      | (Inl e, st') \<Rightarrow>
          (Inl (RuntimeError (''Failed during Azure LLM creation or verification: ''
                  @ str_exn e)), st'))"

text \<open>An \<^verbatim>\<open>OPENAI_API_KEY\<close> in the environment that holds the Azure key is deleted.\<close>

definition scrub_environ :: "settings \<Rightarrow> state \<Rightarrow> state" where
  "scrub_environ s st =
     (if environ st ''OPENAI_API_KEY'' = Some (AZURE_OPENAI_API_KEY s)
      then st\<lparr>environ := (environ st)(''OPENAI_API_KEY'' := None)\<rparr>
      else st)"

text \<open>The body of the outer \<^verbatim>\<open>try\<close>, then its two \<^verbatim>\<open>except\<close> clauses: a \<^verbatim>\<open>ValueError\<close> is
  raised again as it is, anything else becomes a \<^verbatim>\<open>RuntimeError\<close>.\<close>

definition get_llm_body ::
  "world \<Rightarrow> settings \<Rightarrow> state \<Rightarrow> (exn + client option) \<times> state" where
  "get_llm_body w s st =
     (if missing_vars s \<noteq> []
      then (Inl (ValueError (''Missing required Azure OpenAI configuration values: ''
                   @ py_join '', '' (missing_vars s))), st)
      else get_llm_create w s (clean_endpoint (AZURE_OPENAI_ENDPOINT s)) (scrub_environ s st))"

definition get_llm ::
  "world \<Rightarrow> settings \<Rightarrow> bool \<Rightarrow> state \<Rightarrow> (exn + client option) \<times> state" where
  "get_llm w s fallback_to_openai st =
     (case get_llm_body w s st of
        (Inr llm, st') \<Rightarrow> (Inr llm, st')
      | (Inl (ValueError m), st') \<Rightarrow> (Inl (ValueError m), st')
      | (Inl e, st') \<Rightarrow>
          (Inl (RuntimeError (''Unexpected error initializing AzureChatOpenAI: ''
                  @ str_exn e)), st'))"

subsection \<open>\<^verbatim>\<open>generate_completion\<close>\<close>

text \<open>A completion on a raw client: \<^verbatim>\<open>response.choices[0].message.content\<close>, where
  \<^verbatim>\<open>choices[0]\<close> raises \<^verbatim>\<open>IndexError\<close> on an empty list.\<close>

definition raw_completion ::
  "world \<Rightarrow> settings \<Rightarrow> client \<Rightarrow> message list \<Rightarrow> int \<Rightarrow> rat \<Rightarrow> rat \<Rightarrow> state
     \<Rightarrow> (exn + string option) \<times> state" where
  "raw_completion w s client msgs max_tok temp tp st =
     (case outbound_create w
             (ChatCompletionsCreate client msgs max_tok temp tp
                (AZURE_OPENAI_DEPLOYMENT_NAME s) 60) st of
        (Inl e, st') \<Rightarrow> (Inl e, st')
      | (Inr choices, st') \<Rightarrow>
          (case choices of
             [] \<Rightarrow> (Inl (IndexError ''list index out of range''), st')
           | c # cs \<Rightarrow> (Inr c, st')))"

text \<open>
  The body of the \<^verbatim>\<open>try\<close>. The method looks \<^verbatim>\<open>get_llm\<close> up on the class when it runs (the
  tests replace it), so the body takes it as \<open>gl\<close>. \<^verbatim>\<open>not client\<close> holds of \<^verbatim>\<open>None\<close> only.
  When \<^verbatim>\<open>invoke\<close> raises, a raw client is built from the settings and asked instead.
\<close>

definition generate_completion_body ::
  "(state \<Rightarrow> (exn + client option) \<times> state) \<Rightarrow> world \<Rightarrow> settings \<Rightarrow> message list \<Rightarrow> int \<Rightarrow> rat
     \<Rightarrow> rat \<Rightarrow> state \<Rightarrow> (exn + string option) \<times> state" where
  "generate_completion_body gl w s msgs max_tok temp tp st =
     (case gl st of
        (Inl e, st1) \<Rightarrow> (Inl e, st1)
      | (Inr None, st1) \<Rightarrow> (Inr None, st1)
      | (Inr (Some client), st1) \<Rightarrow>
          if hasattr_invoke client
          then (case outbound_invoke w (Invoke client msgs) st1 of
                  (Inr c, st2) \<Rightarrow> (Inr c, st2)
                | (Inl e, st2) \<Rightarrow>
                    raw_completion w s
                      (AzureOpenAI (AZURE_OPENAI_API_VERSION s) (AZURE_OPENAI_ENDPOINT s)
                         (AZURE_OPENAI_API_KEY s) 60)
                      msgs max_tok temp tp st2)
          else raw_completion w s client msgs max_tok temp tp st1)"

text \<open>\<^verbatim>\<open>except Exception\<close>: log and return \<^verbatim>\<open>None\<close>.\<close>

definition generate_completion_with ::
  "(state \<Rightarrow> (exn + client option) \<times> state) \<Rightarrow> world \<Rightarrow> settings \<Rightarrow> message list \<Rightarrow> int \<Rightarrow> rat
     \<Rightarrow> rat \<Rightarrow> state \<Rightarrow> (exn + string option) \<times> state" where
  "generate_completion_with gl w s msgs max_tok temp tp st =
     (case generate_completion_body gl w s msgs max_tok temp tp st of
        (Inr r, st') \<Rightarrow> (Inr r, st')
      | (Inl e, st') \<Rightarrow> (Inr None, st'))"

definition generate_completion ::
  "world \<Rightarrow> settings \<Rightarrow> message list \<Rightarrow> int \<Rightarrow> rat \<Rightarrow> rat \<Rightarrow> state
     \<Rightarrow> (exn + string option) \<times> state" where
  "generate_completion w s = generate_completion_with (get_llm w s False) w s"

subsection \<open>\<^verbatim>\<open>get_coding_answer\<close>\<close>

definition system_prompt :: string where
  "system_prompt =
     ''You are an expert coding interview assistant. Provide concise, '' @ [CHR 0x0A]
     @ ''        practical answers to coding interview questions. Focus on:'' @ [CHR 0x0A]
     @ ''        1. Key concepts and approaches'' @ [CHR 0x0A]
     @ ''        2. Time and space complexity'' @ [CHR 0x0A]
     @ ''        3. Code examples when helpful'' @ [CHR 0x0A]
     @ ''        4. Common pitfalls to avoid'' @ [CHR 0x0A]
     @ ''        '' @ [CHR 0x0A]
     @ ''        Keep answers brief and suitable for display on a small screen (max 200 characters).''
     @ [CHR 0x0A]
     @ ''        If the answer is longer, provide the most essential information first.''"

definition question_messages :: "string \<Rightarrow> message list" where
  "question_messages question =
     [\<lparr>role = ''system'', content = system_prompt\<rparr>,
      \<lparr>role = ''user'', content = ''Answer this coding interview question: '' @ question\<rparr>]"

text \<open>\<^verbatim>\<open>if response:\<close> holds of a non-empty string only; then the answer is cut to the
  display budget.\<close>

definition fit_touch_bar :: "settings \<Rightarrow> string option \<Rightarrow> string" where
  "fit_touch_bar s response =
     (case response of
        None \<Rightarrow> ''Unable to generate answer. Please try again.''
      | Some r \<Rightarrow>
          if r \<noteq> []
          then (if int (length r) > MAX_ANSWER_LENGTH s
                then py_slice_to r (MAX_ANSWER_LENGTH s - 3) @ ''...''
                else r)
          else ''Unable to generate answer. Please try again.'')"

text \<open>
  The method calls \<^verbatim>\<open>cls.generate_completion\<close> with the configured token budget and
  temperature and the default \<^verbatim>\<open>top_p\<close> of 1.0; the tests replace that method too, so it
  is the parameter \<open>gc\<close>. The \<^verbatim>\<open>except Exception\<close> clause turns whatever the call raises
  into the fixed connection message.
\<close>

definition get_coding_answer_with ::
  "(message list \<Rightarrow> int \<Rightarrow> rat \<Rightarrow> rat \<Rightarrow> state \<Rightarrow> (exn + string option) \<times> state) \<Rightarrow> settings
     \<Rightarrow> string \<Rightarrow> state \<Rightarrow> (exn + string) \<times> state" where
  "get_coding_answer_with gc s question st =
     (case gc (question_messages question) (MAX_TOKENS s) (TEMPERATURE s) 1 st of
        (Inr response, st') \<Rightarrow> (Inr (fit_touch_bar s response), st')
      | (Inl e, st') \<Rightarrow> (Inr ''Error: Unable to connect to AI service.'', st'))"

definition get_coding_answer ::
  "world \<Rightarrow> settings \<Rightarrow> string \<Rightarrow> state \<Rightarrow> (exn + string) \<times> state" where
  "get_coding_answer w s = get_coding_answer_with (generate_completion w s) s"

subsection \<open>Test doubles\<close>

text \<open>
  The settings of the test suite's fixture with a chosen display budget, a process that
  has made no call yet, an endpoint whose raw completions follow a script (and fail once
  the script is used up) and whose invoke has one fixed outcome, and a replaced
  \<^verbatim>\<open>generate_completion\<close> with a fixed outcome.
\<close>

definition test_settings :: "string \<Rightarrow> int \<Rightarrow> settings" where
  "test_settings endpoint budget =
     \<lparr>AZURE_OPENAI_API_KEY = ''test_key'',
      AZURE_OPENAI_ENDPOINT = endpoint,
      AZURE_OPENAI_DEPLOYMENT_NAME = ''test_deployment'',
      AZURE_OPENAI_API_VERSION = ''2024-02-15-preview'',
      MAX_ANSWER_LENGTH = budget,
      MAX_TOKENS = 1000,
      TEMPERATURE = 7 / 10\<rparr>"

definition fresh_state :: state where
  "fresh_state = \<lparr>environ = Map.empty, calls = [], sleeps = []\<rparr>"

definition scripted_world ::
  "bool \<Rightarrow> bool \<Rightarrow> (exn + string option list) list \<Rightarrow> exn + string option \<Rightarrow> world" where
  "scripted_world tenacity langchain script invoked =
     \<lparr>TENACITY_AVAILABLE = tenacity,
      LANGCHAIN_AVAILABLE = langchain,
      chat_completions_create =
        (\<lambda>n req. if n < length script then script ! n
                  else Inl (Exception ''Connection failed'')),
      invoke = (\<lambda>n req. invoked)\<rparr>"

definition mock_generate_completion ::
  "exn + string option \<Rightarrow> message list \<Rightarrow> int \<Rightarrow> rat \<Rightarrow> rat \<Rightarrow> state
     \<Rightarrow> (exn + string option) \<times> state" where
  "mock_generate_completion outcome msgs max_tok temp tp st = (outcome, st)"

text \<open>The LangChain model that a successful attempt builds from the settings, and an
  endpoint given with a path below the base URL.\<close>

definition configured_llm :: "settings \<Rightarrow> client" where
  "configured_llm s =
     AzureChatOpenAI (AZURE_OPENAI_DEPLOYMENT_NAME s) (AZURE_OPENAI_API_VERSION s)
       (AZURE_OPENAI_ENDPOINT s) (AZURE_OPENAI_API_KEY s) (7 / 10) 60
       (''azure/'' @ AZURE_OPENAI_DEPLOYMENT_NAME s)"

definition deep_endpoint :: string where
  "deep_endpoint = ''https://test.openai.azure.com/openai/deployments/gpt4''"

definition base_url :: string where
  "base_url = ''https://test.openai.azure.com/''"

text \<open>The request that \<^verbatim>\<open>generate_completion\<close> sends through a raw client after
  \<^verbatim>\<open>invoke\<close> raised, and two environments: the test fixture's without the API version,
  and without the endpoint.\<close>

definition fallback_request :: "settings \<Rightarrow> message list \<Rightarrow> int \<Rightarrow> rat \<Rightarrow> rat \<Rightarrow> request" where
  "fallback_request s msgs max_tok temp tp =
     ChatCompletionsCreate
       (AzureOpenAI (AZURE_OPENAI_API_VERSION s) (AZURE_OPENAI_ENDPOINT s)
          (AZURE_OPENAI_API_KEY s) 60)
       msgs max_tok temp tp (AZURE_OPENAI_DEPLOYMENT_NAME s) 60"



text \<open>A replaced \<^verbatim>\<open>get_llm\<close> with a fixed outcome, as the test suite patches it.\<close>

definition mock_get_llm :: "exn + client option \<Rightarrow> state \<Rightarrow> (exn + client option) \<times> state" where
  "mock_get_llm outcome st = (outcome, st)"

section \<open>Properties\<close>

subsection \<open>Shared facts\<close>


lemma test_settings_valid:
  "endpoint \<noteq> [] \<Longrightarrow> missing_vars (test_settings endpoint budget) = []"
  by (simp add: missing_vars_def required_vars_def test_settings_def)

lemma fit_touch_bar_long:
  assumes "3 \<le> MAX_ANSWER_LENGTH s" and "int (length text) > MAX_ANSWER_LENGTH s"
  shows "fit_touch_bar s (Some text) = take (nat (MAX_ANSWER_LENGTH s - 3)) text @ ''...''"
  using assms by (auto simp add: fit_touch_bar_def py_slice_to_def)

lemma scrub_environ_keeps:
  "calls (scrub_environ s st) = calls st" "sleeps (scrub_environ s st) = sleeps st"
  by (simp_all add: scrub_environ_def)

lemma get_llm_body_valid:
  "missing_vars s = [] \<Longrightarrow>
   get_llm_body w s st
     = get_llm_create w s (clean_endpoint (AZURE_OPENAI_ENDPOINT s)) (scrub_environ s st)"
  by (simp add: get_llm_body_def)

text \<open>One attempt: it issues the test call, and raises what the call raises; when the call
  answers and LangChain is there, it returns the configured model.\<close>

lemma attempt_raises:
  "chat_completions_create w (length (calls st)) (test_request s) = Inl e
   \<Longrightarrow> create_azure_llm w s endpoint st
        = (Inl e, st\<lparr>calls := calls st @ [test_request s]\<rparr>)"
  by (simp add: create_azure_llm_def outbound_create_def)

lemma attempt_succeeds:
  "chat_completions_create w (length (calls st)) (test_request s) = Inr r
   \<Longrightarrow> LANGCHAIN_AVAILABLE w
   \<Longrightarrow> create_azure_llm w s endpoint st
        = (Inr (Some (configured_llm s)), st\<lparr>calls := calls st @ [test_request s]\<rparr>)"
  by (simp add: create_azure_llm_def outbound_create_def new_AzureChatOpenAI_def
      configured_llm_def)

text \<open>The argument that \<^verbatim>\<open>get_llm\<close> computes from the endpoint has no effect on an attempt.\<close>

lemma create_azure_llm_ignores_endpoint:
  "create_azure_llm w s endpoint = create_azure_llm w s endpoint'"
  by (rule ext) (simp add: create_azure_llm_def)

lemma wait_schedule:
  "wait_exponential 1 4 10 (Suc 0) = 4" "wait_exponential 1 4 10 (Suc (Suc 0)) = 4"
  by (simp_all add: wait_exponential_def)

lemma retry3:
  "retry w 3 wt f
     = (if TENACITY_AVAILABLE w then retry_call (Suc (Suc 0)) (Suc 0) wt f else f)"
  by (simp add: retry_def numeral_3_eq_3)

lemma get_llm_first_attempt:
  assumes "missing_vars s = []" and "LANGCHAIN_AVAILABLE w"
    and "chat_completions_create w (length (calls st)) (test_request s) = Inr r"
  shows "get_llm w s fallback_to_openai st
           = (Inr (Some (configured_llm s)),
              scrub_environ s st\<lparr>calls := calls st @ [test_request s]\<rparr>)"
proof -
  let ?ep = "clean_endpoint (AZURE_OPENAI_ENDPOINT s)"
  have "create_azure_llm w s ?ep (scrub_environ s st)
          = (Inr (Some (configured_llm s)),
             scrub_environ s st\<lparr>calls := calls st @ [test_request s]\<rparr>)"
    using assms(2,3) by (simp add: attempt_succeeds scrub_environ_keeps)
  then have "create_azure_llm_with_retry w s ?ep (scrub_environ s st)
          = (Inr (Some (configured_llm s)),
             scrub_environ s st\<lparr>calls := calls st @ [test_request s]\<rparr>)"
    by (simp add: create_azure_llm_with_retry_def retry3)
  then show ?thesis using assms(1)
    by (simp add: get_llm_def get_llm_body_valid get_llm_create_def)
qed

lemma clean_deep_endpoint: "clean_endpoint deep_endpoint = ''https://test.openai.azure.com''"
  by code_simp

text \<open>What \<^verbatim>\<open>generate_completion\<close> returns along each path of its body.\<close>

lemma completion_client_raises:
  "gl st = (Inl e, st1)
   \<Longrightarrow> generate_completion_with gl w s msgs max_tok temp tp st = (Inr None, st1)"
  by (simp add: generate_completion_with_def generate_completion_body_def)

lemma completion_invoke_raises:
  "gl st = (Inr (Some client), st1) \<Longrightarrow> hasattr_invoke client
   \<Longrightarrow> invoke w (length (calls st1)) (Invoke client msgs) = Inl e1
   \<Longrightarrow> generate_completion_with gl w s msgs max_tok temp tp st
        = ((case chat_completions_create w (Suc (length (calls st1)))
                   (fallback_request s msgs max_tok temp tp) of
              Inl e2 \<Rightarrow> Inr None
            | Inr [] \<Rightarrow> Inr None
            | Inr (c # cs) \<Rightarrow> Inr c),
           st1\<lparr>calls := calls st1 @ [Invoke client msgs,
                                      fallback_request s msgs max_tok temp tp]\<rparr>)"
  by (simp add: generate_completion_with_def generate_completion_body_def outbound_invoke_def
      raw_completion_def outbound_create_def fallback_request_def
      split: sum.split list.split)

lemma completion_raw_client:
  "gl st = (Inr (Some client), st1) \<Longrightarrow> \<not> hasattr_invoke client
   \<Longrightarrow> generate_completion_with gl w s msgs max_tok temp tp st
        = ((case chat_completions_create w (length (calls st1))
                   (ChatCompletionsCreate client msgs max_tok temp tp
                      (AZURE_OPENAI_DEPLOYMENT_NAME s) 60) of
              Inl e2 \<Rightarrow> Inr None
            | Inr [] \<Rightarrow> Inr None
            | Inr (c # cs) \<Rightarrow> Inr c),
           st1\<lparr>calls := calls st1 @ [ChatCompletionsCreate client msgs max_tok temp tp
                                        (AZURE_OPENAI_DEPLOYMENT_NAME s) 60]\<rparr>)"
  by (simp add: generate_completion_with_def generate_completion_body_def
      raw_completion_def outbound_create_def split: sum.split list.split)

lemma completion_never_raises:
  "\<not> isl (fst (generate_completion_with gl w s msgs max_tok temp tp st))"
  by (simp add: generate_completion_with_def split: prod.split sum.split)

lemma answer_of_completion:
  "gc (question_messages q) (MAX_TOKENS s) (TEMPERATURE s) 1 st = (Inr response, st')
   \<Longrightarrow> get_coding_answer_with gc s q st = (Inr (fit_touch_bar s response), st')"
  by (simp add: get_coding_answer_with_def)

lemma fit_touch_bar_None:
  "fit_touch_bar s None = ''Unable to generate answer. Please try again.''"
  by (simp add: fit_touch_bar_def)

text \<open>The test settings against an endpoint whose first answer is a success.\<close>

lemma get_llm_scripted:
  "get_llm (scripted_world tenacity True (Inr r # script) invoked)
      (test_settings base_url budget) False fresh_state
     = (Inr (Some (configured_llm (test_settings base_url budget))),
        fresh_state\<lparr>calls := [test_request (test_settings base_url budget)]\<rparr>)"
proof -
  have v: "missing_vars (test_settings base_url budget) = []"
    by (simp add: test_settings_valid base_url_def)
  have "scrub_environ (test_settings base_url budget) fresh_state = fresh_state"
    by (simp add: scrub_environ_def fresh_state_def)
  then show ?thesis
    using get_llm_first_attempt [OF v, of "scripted_world tenacity True (Inr r # script) invoked"
        fresh_state r False]
    by (simp add: scripted_world_def fresh_state_def)
qed

subsection \<open>Truncation to the display budget\<close>

text \<open>
  Claim C1, as amended. Let the display budget be at least 3. If the completion call made
  by \<^verbatim>\<open>get_coding_answer\<close> returns a text longer than \<^verbatim>\<open>MAX_ANSWER_LENGTH\<close>, the answer
  has exactly \<^verbatim>\<open>MAX_ANSWER_LENGTH\<close> characters, ends with three dots, and its first
  \<^verbatim>\<open>MAX_ANSWER_LENGTH - 3\<close> characters are those of the text. The completion call is any
  \<open>gc\<close>, so the statement holds of \<open>get_coding_answer w s\<close>, where \<open>gc\<close> is
  \<open>generate_completion w s\<close>, and of a replaced method.
\<close>

theorem get_coding_answer_truncates:
  assumes "3 \<le> MAX_ANSWER_LENGTH s"
    and "gc (question_messages q) (MAX_TOKENS s) (TEMPERATURE s) 1 st = (Inr (Some text), st')"
    and "int (length text) > MAX_ANSWER_LENGTH s"
  shows "\<exists>a. get_coding_answer_with gc s q st = (Inr a, st')
           \<and> int (length a) = MAX_ANSWER_LENGTH s
           \<and> py_endswith a ''...''
           \<and> take (nat (MAX_ANSWER_LENGTH s - 3)) a = take (nat (MAX_ANSWER_LENGTH s - 3)) text"
proof -
  let ?k = "nat (MAX_ANSWER_LENGTH s - 3)"
  let ?a = "take ?k text @ ''...''"
  have k: "?k \<le> length text" using assms(1,3) by linarith
  have len: "length (take ?k text) = ?k" using k by simp
  have "get_coding_answer_with gc s q st = (Inr ?a, st')"
    using assms by (simp add: get_coding_answer_with_def fit_touch_bar_long)
  moreover have "int (length ?a) = MAX_ANSWER_LENGTH s" using len assms(1) by simp
  moreover have "py_endswith ?a ''...''" using len by (simp add: py_endswith_def)
  moreover have "take ?k ?a = take ?k text" using len by simp
  ultimately show ?thesis by blast
qed

text \<open>With a budget of 5, a completion of eight characters is cut to two and the dots.\<close>

theorem get_coding_answer_truncates_witness:
  "3 \<le> MAX_ANSWER_LENGTH (test_settings base_url 5)
   \<and> int (length ''abcdefgh'') > MAX_ANSWER_LENGTH (test_settings base_url 5)
   \<and> get_coding_answer_with (mock_generate_completion (Inr (Some ''abcdefgh'')))
        (test_settings base_url 5) ''q'' fresh_state
       = (Inr ''ab...'', fresh_state)"
  using get_coding_answer_truncates [of "test_settings base_url 5"
      "mock_generate_completion (Inr (Some ''abcdefgh''))" "''q''" fresh_state
      "''abcdefgh''" fresh_state]
  by (simp add: mock_generate_completion_def test_settings_def get_coding_answer_with_def
      fit_touch_bar_def py_slice_to_def)

text \<open>Claim C1 as stated fails for a budget below 3: with \<^verbatim>\<open>MAX_ANSWER_LENGTH = 2\<close> the
  slice bound is \<open>-1\<close>, which drops the last character only, and the answer to a
  completion of four characters has six.\<close>

theorem get_coding_answer_truncates_counterexample:
  "get_coding_answer_with (mock_generate_completion (Inr (Some ''abcd'')))
      (test_settings base_url 2) ''q'' fresh_state
     = (Inr ''abc...'', fresh_state)
   \<and> int (length ''abcd'') > MAX_ANSWER_LENGTH (test_settings base_url 2)
   \<and> int (length ''abc...'') \<noteq> MAX_ANSWER_LENGTH (test_settings base_url 2)"
  by (simp add: get_coding_answer_with_def mock_generate_completion_def test_settings_def
      fit_touch_bar_def py_slice_to_def)

subsection \<open>Answers within the budget\<close>

text \<open>
  Claim C2, as amended. If the completion call returns a text that is not empty and has
  at most \<^verbatim>\<open>MAX_ANSWER_LENGTH\<close> characters, \<^verbatim>\<open>get_coding_answer\<close> returns that text.
\<close>

theorem get_coding_answer_short_unmodified:
  assumes "gc (question_messages q) (MAX_TOKENS s) (TEMPERATURE s) 1 st = (Inr (Some text), st')"
    and "text \<noteq> []"
    and "int (length text) \<le> MAX_ANSWER_LENGTH s"
  shows "get_coding_answer_with gc s q st = (Inr text, st')"
  using assms by (simp add: get_coding_answer_with_def fit_touch_bar_def)

text \<open>The binary search scenario of the specification.\<close>

theorem get_coding_answer_short_unmodified_witness:
  "''O(log n)'' \<noteq> []
   \<and> int (length ''O(log n)'') \<le> MAX_ANSWER_LENGTH (test_settings base_url 200)
   \<and> get_coding_answer_with (mock_generate_completion (Inr (Some ''O(log n)'')))
        (test_settings base_url 200) ''What is the time complexity of binary search?''
        fresh_state
       = (Inr ''O(log n)'', fresh_state)"
  using get_coding_answer_short_unmodified [of
      "mock_generate_completion (Inr (Some ''O(log n)''))"
      "''What is the time complexity of binary search?''"
      "test_settings base_url 200" fresh_state "''O(log n)''" fresh_state]
  by (simp add: mock_generate_completion_def test_settings_def)

text \<open>Claim C2 as stated includes the empty text, which \<^verbatim>\<open>if response:\<close> sends to the
  other branch: the answer is the fixed message, not the empty text.\<close>

theorem get_coding_answer_short_unmodified_counterexample:
  "get_coding_answer_with (mock_generate_completion (Inr (Some '''')))
      (test_settings base_url 200) ''q'' fresh_state
     = (Inr ''Unable to generate answer. Please try again.'', fresh_state)
   \<and> int (length '''') \<le> MAX_ANSWER_LENGTH (test_settings base_url 200)"
  by (simp add: get_coding_answer_with_def mock_generate_completion_def test_settings_def
      fit_touch_bar_def)

subsection \<open>The answer is always a non-empty string\<close>

text \<open>
  Claim C3. For every question, also the empty one, every settings value and whatever the
  completion call does, \<^verbatim>\<open>get_coding_answer\<close> returns and does not raise, and what it
  returns is a non-empty string: one of the two fixed messages, the completion text, or
  the cut completion text followed by three dots.
\<close>

theorem get_coding_answer_total_nonempty:
  "\<exists>a st'. get_coding_answer_with gc s q st = (Inr a, st') \<and> a \<noteq> []
     \<and> (a = ''Error: Unable to connect to AI service.''
        \<or> a = ''Unable to generate answer. Please try again.''
        \<or> (\<exists>text. fst (gc (question_messages q) (MAX_TOKENS s) (TEMPERATURE s) 1 st)
                     = Inr (Some text)
              \<and> (a = text \<or> a = py_slice_to text (MAX_ANSWER_LENGTH s - 3) @ ''...'')))"
proof (cases "gc (question_messages q) (MAX_TOKENS s) (TEMPERATURE s) 1 st")
  case (Pair r st')
  show ?thesis
  proof (cases r)
    case (Inl e)
    with Pair show ?thesis by (simp add: get_coding_answer_with_def)
  next
    case (Inr response)
    with Pair show ?thesis
      by (cases response) (auto simp add: get_coding_answer_with_def fit_touch_bar_def)
  qed
qed

text \<open>The empty question against a service without configuration: the answer is a fixed
  message.\<close>

theorem get_coding_answer_total_nonempty_witness:
  "\<exists>a st'. get_coding_answer (scripted_world True True [] (Inr None)) (test_settings '''' 200)
              '''' fresh_state = (Inr a, st')
     \<and> a \<noteq> []"
  using get_coding_answer_total_nonempty [of
      "generate_completion (scripted_world True True [] (Inr None)) (test_settings '''' 200)"
      "test_settings '''' 200" "''''" fresh_state]
  by (auto simp add: get_coding_answer_def)

subsection \<open>What an exception becomes\<close>

text \<open>
  Claim C4, as amended. If the call of \<^verbatim>\<open>generate_completion\<close> itself raises,
  \<^verbatim>\<open>get_coding_answer\<close> returns exactly the fixed connection message; that needs the
  method replaced by one that raises, as in the test suite, since the method of the
  source never raises. On the service as it is composed, when \<^verbatim>\<open>get_llm\<close> raises, or the
  model's \<^verbatim>\<open>invoke\<close> raises and the request of the raw fallback raises too or answers
  without a choice, the answer is the fixed message asking to try again; when \<^verbatim>\<open>invoke\<close>
  raises and the raw fallback answers, the answer is its first choice fitted to the
  display budget.
\<close>

theorem get_coding_answer_completion_raises:
  "(gc (question_messages q) (MAX_TOKENS s) (TEMPERATURE s) 1 st = (Inl e, st')
      \<longrightarrow> get_coding_answer_with gc s q st
            = (Inr ''Error: Unable to connect to AI service.'', st'))
   \<and> \<not> isl (fst (generate_completion w s (question_messages q) (MAX_TOKENS s)
                    (TEMPERATURE s) 1 st))
   \<and> (isl (fst (get_llm w s False st))
      \<longrightarrow> fst (get_coding_answer w s q st)
            = Inr ''Unable to generate answer. Please try again.'')
   \<and> (fst (get_llm w s False st) = Inr (Some client) \<and> hasattr_invoke client
      \<and> invoke w (length (calls (snd (get_llm w s False st))))
           (Invoke client (question_messages q)) = Inl e1
      \<and> chat_completions_create w (Suc (length (calls (snd (get_llm w s False st)))))
           (fallback_request s (question_messages q) (MAX_TOKENS s) (TEMPERATURE s) 1) = Inl e2
      \<longrightarrow> fst (get_coding_answer w s q st)
            = Inr ''Unable to generate answer. Please try again.'')
   \<and> (fst (get_llm w s False st) = Inr (Some client) \<and> hasattr_invoke client
      \<and> invoke w (length (calls (snd (get_llm w s False st))))
           (Invoke client (question_messages q)) = Inl e1
      \<and> chat_completions_create w (Suc (length (calls (snd (get_llm w s False st)))))
           (fallback_request s (question_messages q) (MAX_TOKENS s) (TEMPERATURE s) 1) = Inr []
      \<longrightarrow> fst (get_coding_answer w s q st)
            = Inr ''Unable to generate answer. Please try again.'')
   \<and> (fst (get_llm w s False st) = Inr (Some client) \<and> hasattr_invoke client
      \<and> invoke w (length (calls (snd (get_llm w s False st))))
           (Invoke client (question_messages q)) = Inl e1
      \<and> chat_completions_create w (Suc (length (calls (snd (get_llm w s False st)))))
           (fallback_request s (question_messages q) (MAX_TOKENS s) (TEMPERATURE s) 1)
          = Inr (c # cs)
      \<longrightarrow> fst (get_coding_answer w s q st) = Inr (fit_touch_bar s c))"
proof -
  let ?msgs = "question_messages q"
  let ?gen = "generate_completion w s ?msgs (MAX_TOKENS s) (TEMPERATURE s) 1 st"
  let ?st1 = "snd (get_llm w s False st)"
  have answer: "fst (get_coding_answer w s q st) = Inr (fit_touch_bar s response)"
    if "fst ?gen = Inr response" for response
    using that
    by (cases ?gen) (simp add: get_coding_answer_def get_coding_answer_with_def)
  have fallback: "fst ?gen
      = (case chat_completions_create w (Suc (length (calls ?st1)))
                (fallback_request s ?msgs (MAX_TOKENS s) (TEMPERATURE s) 1) of
           Inl e2 \<Rightarrow> Inr None | Inr [] \<Rightarrow> Inr None | Inr (c # cs) \<Rightarrow> Inr c)"
    if "fst (get_llm w s False st) = Inr (Some client)" and "hasattr_invoke client"
      and "invoke w (length (calls ?st1)) (Invoke client ?msgs) = Inl e1"
    using that
    by (cases "get_llm w s False st")
       (simp add: generate_completion_def completion_invoke_raises)
  have 1: "get_coding_answer_with gc s q st
             = (Inr ''Error: Unable to connect to AI service.'', st')"
    if "gc ?msgs (MAX_TOKENS s) (TEMPERATURE s) 1 st = (Inl e, st')"
    using that by (simp add: get_coding_answer_with_def)
  have 2: "\<not> isl (fst ?gen)"
    by (simp add: generate_completion_def completion_never_raises)
  have 3: "fst (get_coding_answer w s q st) = Inr ''Unable to generate answer. Please try again.''"
    if "isl (fst (get_llm w s False st))"
  proof -
    from that obtain e0 st0 where "get_llm w s False st = (Inl e0, st0)"
      by (cases "get_llm w s False st") (auto simp add: isl_def)
    then have "fst ?gen = Inr None"
      by (simp add: generate_completion_def completion_client_raises)
    then show ?thesis using answer by (simp add: fit_touch_bar_None)
  qed
  show ?thesis
    using 1 2 3 fallback answer by (simp add: fit_touch_bar_None)
qed

text \<open>The test suite's raising double; a service without an endpoint; and a verified
  connection on which \<^verbatim>\<open>invoke\<close> raises and the raw fallback raises, answers without a
  choice, or answers.\<close>

theorem get_coding_answer_completion_raises_witness:
  "get_coding_answer_with (mock_generate_completion (Inl (Exception ''API Error'')))
      (test_settings base_url 200) ''Test question'' fresh_state
     = (Inr ''Error: Unable to connect to AI service.'', fresh_state)
   \<and> isl (fst (get_llm (scripted_world True True [] (Inr None)) (test_settings '''' 200)
                 False fresh_state))
   \<and> fst (get_coding_answer (scripted_world True True [] (Inr None)) (test_settings '''' 200)
            ''Test question'' fresh_state)
       = Inr ''Unable to generate answer. Please try again.''
   \<and> fst (get_coding_answer
            (scripted_world True True [Inr [Some ''Hello'']]
               (Inl (Exception ''LangChain failed'')))
            (test_settings base_url 200) ''Test question'' fresh_state)
       = Inr ''Unable to generate answer. Please try again.''
   \<and> fst (get_coding_answer
            (scripted_world True True [Inr [Some ''Hello''], Inr [], Inr []]
               (Inl (Exception ''LangChain failed'')))
            (test_settings base_url 200) ''Test question'' fresh_state)
       = Inr ''Unable to generate answer. Please try again.''
   \<and> fst (get_coding_answer
            (scripted_world True True [Inr [Some ''Hello''], Inr [], Inr [Some ''Test response'']]
               (Inl (Exception ''LangChain failed'')))
            (test_settings base_url 200) ''Test question'' fresh_state)
       = Inr ''Test response''"
proof -
  let ?S = "test_settings base_url 200"
  let ?q = "''Test question''"
  let ?boom = "Inl (Exception ''LangChain failed'') :: exn + string option"
  have a: "get_coding_answer_with (mock_generate_completion (Inl (Exception ''API Error'')))
      ?S ?q fresh_state = (Inr ''Error: Unable to connect to AI service.'', fresh_state)"
    using get_coding_answer_completion_raises [where
        gc = "mock_generate_completion (Inl (Exception ''API Error''))" and q = ?q and s = ?S
        and st = fresh_state and e = "Exception ''API Error''" and st' = fresh_state]
    by (simp add: mock_generate_completion_def)
  have b0: "isl (fst (get_llm (scripted_world True True [] (Inr None)) (test_settings '''' 200)
                 False fresh_state))"
    by (simp add: get_llm_def get_llm_body_def missing_vars_def required_vars_def
        test_settings_def)
  have b: "fst (get_coding_answer (scripted_world True True [] (Inr None))
                  (test_settings '''' 200) ?q fresh_state)
             = Inr ''Unable to generate answer. Please try again.''"
    using b0 get_coding_answer_completion_raises [where
        w = "scripted_world True True [] (Inr None)" and s = "test_settings '''' 200"
        and q = ?q and st = fresh_state]
    by simp
  have c: "fst (get_coding_answer (scripted_world True True [Inr [Some ''Hello'']] ?boom)
                  ?S ?q fresh_state)
             = Inr ''Unable to generate answer. Please try again.''"
    using get_coding_answer_completion_raises [where
        w = "scripted_world True True [Inr [Some ''Hello'']] ?boom" and s = ?S and q = ?q
        and st = fresh_state and client = "configured_llm ?S"
        and ?e1.0 = "Exception ''LangChain failed''"
        and ?e2.0 = "Exception ''Connection failed''"]
    by (simp add: get_llm_scripted configured_llm_def) (simp add: scripted_world_def)
  have d: "fst (get_coding_answer
                  (scripted_world True True [Inr [Some ''Hello''], Inr [], Inr []] ?boom)
                  ?S ?q fresh_state)
             = Inr ''Unable to generate answer. Please try again.''"
    using get_coding_answer_completion_raises [where
        w = "scripted_world True True [Inr [Some ''Hello''], Inr [], Inr []] ?boom"
        and s = ?S and q = ?q and st = fresh_state and client = "configured_llm ?S"
        and ?e1.0 = "Exception ''LangChain failed''"]
    by (simp add: get_llm_scripted configured_llm_def) (simp add: scripted_world_def)
  have e: "fst (get_coding_answer
                  (scripted_world True True
                     [Inr [Some ''Hello''], Inr [], Inr [Some ''Test response'']] ?boom)
                  ?S ?q fresh_state)
             = Inr ''Test response''"
    using get_coding_answer_completion_raises [where
        w = "scripted_world True True
               [Inr [Some ''Hello''], Inr [], Inr [Some ''Test response'']] ?boom"
        and s = ?S and q = ?q and st = fresh_state and client = "configured_llm ?S"
        and ?e1.0 = "Exception ''LangChain failed''" and c = "Some ''Test response''"
        and cs = "[]"]
    by (simp add: get_llm_scripted configured_llm_def)
       (simp add: scripted_world_def fit_touch_bar_def test_settings_def)
  show ?thesis using a b0 b c d e by simp
qed

text \<open>Claim C4 as stated fails on the service as it is composed: when the connection was
  verified and then both the invoke and the raw completion raise, \<^verbatim>\<open>generate_completion\<close>
  returns \<^verbatim>\<open>None\<close> and the answer is the other fixed message. Three calls were made.\<close>

theorem get_coding_answer_completion_raises_counterexample:
  "fst (get_coding_answer
          (scripted_world True True [Inr [Some ''Hello'']] (Inl (Exception ''API Error'')))
          (test_settings base_url 200) ''Test question'' fresh_state)
     = Inr ''Unable to generate answer. Please try again.''
   \<and> length (calls (snd (get_coding_answer
          (scripted_world True True [Inr [Some ''Hello'']] (Inl (Exception ''API Error'')))
          (test_settings base_url 200) ''Test question'' fresh_state))) = 3"
  by code_simp

subsection \<open>Missing configuration\<close>




subsection \<open>Retrying the construction\<close>

text \<open>
  Claim C6, as amended. Let the configuration be complete and let the connectivity check
  fail whenever it is made. Then \<^verbatim>\<open>get_llm\<close> raises \<^verbatim>\<open>RuntimeError\<close>. With tenacity it made
  exactly three attempts and waited 4 seconds after the first and 4 seconds after the
  second (the exponential schedule starts below its minimum of 4); with the module's own
  \<^verbatim>\<open>retry\<close> it made exactly one attempt and did not wait.
\<close>

theorem get_llm_every_attempt_fails:
  assumes "missing_vars s = []"
    and "\<forall>n. isl (chat_completions_create w n (test_request s))"
  shows "(\<exists>m. fst (get_llm w s fallback_to_openai st) = Inl (RuntimeError m))
         \<and> calls (snd (get_llm w s fallback_to_openai st))
             = calls st @ (if TENACITY_AVAILABLE w
                           then [test_request s, test_request s, test_request s]
                           else [test_request s])
         \<and> sleeps (snd (get_llm w s fallback_to_openai st))
             = sleeps st @ (if TENACITY_AVAILABLE w then [4, 4] else [])"
proof -
  let ?ep = "clean_endpoint (AZURE_OPENAI_ENDPOINT s)"
  let ?err = "\<lambda>n. projl (chat_completions_create w n (test_request s))"
  have E: "chat_completions_create w n (test_request s) = Inl (?err n)" for n
    using assms(2) by simp
  have step: "create_azure_llm w s ?ep st'
                = (Inl (?err (length (calls st'))), st'\<lparr>calls := calls st' @ [test_request s]\<rparr>)"
    for st'
    by (rule attempt_raises) (rule E)
  show ?thesis
  proof (cases "TENACITY_AVAILABLE w")
    case True
    then have "\<exists>e. create_azure_llm_with_retry w s ?ep (scrub_environ s st)
                 = (Inl (RetryError e),
                    scrub_environ s st
                      \<lparr>calls := calls st @ [test_request s, test_request s, test_request s],
                       sleeps := sleeps st @ [4, 4]\<rparr>)"
      by (simp add: create_azure_llm_with_retry_def retry3 step wait_schedule
          scrub_environ_keeps)
    then show ?thesis using True assms(1)
      by (auto simp add: get_llm_def get_llm_body_valid get_llm_create_def)
  next
    case False
    then have "create_azure_llm_with_retry w s ?ep (scrub_environ s st)
                 = (Inl (?err (length (calls st))),
                    scrub_environ s st\<lparr>calls := calls st @ [test_request s]\<rparr>)"
      by (simp add: create_azure_llm_with_retry_def retry3 step scrub_environ_keeps)
    then show ?thesis using False assms(1)
      by (cases "?err (length (calls st))")
         (simp_all add: get_llm_def get_llm_body_valid get_llm_create_def scrub_environ_keeps)
  qed
qed

theorem get_llm_every_attempt_fails_witness:
  "missing_vars (test_settings base_url 200) = []
   \<and> (\<forall>n. isl (chat_completions_create (scripted_world True True [] (Inr None)) n
                  (test_request (test_settings base_url 200))))
   \<and> (\<exists>m. fst (get_llm (scripted_world True True [] (Inr None))
                  (test_settings base_url 200) False fresh_state) = Inl (RuntimeError m))
   \<and> length (calls (snd (get_llm (scripted_world True True [] (Inr None))
                            (test_settings base_url 200) False fresh_state))) = 3
   \<and> sleeps (snd (get_llm (scripted_world True True [] (Inr None))
                     (test_settings base_url 200) False fresh_state)) = [4, 4]"
  using get_llm_every_attempt_fails [of "test_settings base_url 200"
      "scripted_world True True [] (Inr None)" False fresh_state]
  by (simp add: test_settings_valid base_url_def scripted_world_def fresh_state_def)

text \<open>Claim C6 as stated fails twice. Where tenacity is not installed the construction
  fails after one attempt, not three; and with tenacity the two delays are equal.\<close>

theorem get_llm_every_attempt_fails_counterexample:
  "isl (fst (get_llm (scripted_world False True [] (Inr None))
               (test_settings base_url 200) False fresh_state))
   \<and> length (calls (snd (get_llm (scripted_world False True [] (Inr None))
                            (test_settings base_url 200) False fresh_state))) = 1
   \<and> sleeps (snd (get_llm (scripted_world True True [] (Inr None))
                     (test_settings base_url 200) False fresh_state)) = [4, 4]"
  by code_simp

text \<open>
  Claim C7, as amended. Let tenacity and LangChain be installed and the configuration
  complete. If the connectivity check fails on the first and on the second attempt and
  succeeds on the third, \<^verbatim>\<open>get_llm\<close> returns the configured LangChain model, which has an
  \<^verbatim>\<open>invoke\<close> method, after three attempts and two delays of 4 seconds.
\<close>

theorem get_llm_recovers_on_third_attempt:
  assumes "TENACITY_AVAILABLE w" and "LANGCHAIN_AVAILABLE w" and "missing_vars s = []"
    and "chat_completions_create w (length (calls st)) (test_request s) = Inl e1"
    and "chat_completions_create w (Suc (length (calls st))) (test_request s) = Inl e2"
    and "chat_completions_create w (Suc (Suc (length (calls st)))) (test_request s) = Inr r"
  shows "fst (get_llm w s fallback_to_openai st) = Inr (Some (configured_llm s))
         \<and> hasattr_invoke (configured_llm s)
         \<and> calls (snd (get_llm w s fallback_to_openai st))
             = calls st @ [test_request s, test_request s, test_request s]
         \<and> sleeps (snd (get_llm w s fallback_to_openai st)) = sleeps st @ [4, 4]"
proof -
  let ?ep = "clean_endpoint (AZURE_OPENAI_ENDPOINT s)"
  have "create_azure_llm_with_retry w s ?ep (scrub_environ s st)
          = (Inr (Some (configured_llm s)),
             scrub_environ s st
               \<lparr>calls := calls st @ [test_request s, test_request s, test_request s],
                sleeps := sleeps st @ [4, 4]\<rparr>)"
    using assms(1,2,4,5,6)
    by (simp add: create_azure_llm_with_retry_def retry3 wait_schedule scrub_environ_keeps
        create_azure_llm_def outbound_create_def new_AzureChatOpenAI_def configured_llm_def)
  then show ?thesis using assms(3)
    by (simp add: get_llm_def get_llm_body_valid get_llm_create_def configured_llm_def)
qed

theorem get_llm_recovers_on_third_attempt_witness:
  "fst (get_llm (scripted_world True True
                   [Inl (Exception ''Connection failed''), Inl (Exception ''Connection failed''),
                    Inr [Some ''Hello'']] (Inr None))
          (test_settings base_url 200) False fresh_state)
     = Inr (Some (configured_llm (test_settings base_url 200)))
   \<and> length (calls (snd (get_llm (scripted_world True True
                   [Inl (Exception ''Connection failed''), Inl (Exception ''Connection failed''),
                    Inr [Some ''Hello'']] (Inr None))
          (test_settings base_url 200) False fresh_state))) = 3"
  using get_llm_recovers_on_third_attempt [where
      w = "scripted_world True True
             [Inl (Exception ''Connection failed''), Inl (Exception ''Connection failed''),
              Inr [Some ''Hello'']] (Inr None)"
      and s = "test_settings base_url 200" and st = fresh_state
      and ?e1.0 = "Exception ''Connection failed''" and ?e2.0 = "Exception ''Connection failed''"
      and r = "[Some ''Hello'']" and fallback_to_openai = False]
  by (simp add: test_settings_valid base_url_def scripted_world_def fresh_state_def)

text \<open>Claim C7 as stated fails where tenacity is not installed: the first failure is
  final, and the endpoint that would answer the third call is asked once.\<close>

theorem get_llm_recovers_on_third_attempt_counterexample:
  "fst (get_llm (scripted_world False True
                   [Inl (Exception ''Connection failed''), Inl (Exception ''Connection failed''),
                    Inr [Some ''Hello'']] (Inr None))
          (test_settings base_url 200) False fresh_state)
     = Inl (RuntimeError (''Unexpected error initializing AzureChatOpenAI: ''
              @ ''Failed during Azure LLM creation or verification: Connection failed''))
   \<and> length (calls (snd (get_llm (scripted_world False True
                   [Inl (Exception ''Connection failed''), Inl (Exception ''Connection failed''),
                    Inr [Some ''Hello'']] (Inr None))
          (test_settings base_url 200) False fresh_state))) = 1"
  by code_simp

subsection \<open>The empty question\<close>

text \<open>
  Claim C8, as amended. Let the display budget be at least 3. For the empty question,
  \<^verbatim>\<open>get_coding_answer\<close> calls the completion with the messages built from it, whose user
  message is the fixed prefix followed by nothing, and returns N/A when the completion
  returns N/A. On the service as it is composed, with a complete configuration,
  LangChain installed, a connectivity check that succeeds and a model that answers N/A,
  it made two outbound calls: the connectivity check and the completion request.
\<close>

theorem empty_question_still_asks:
  assumes "3 \<le> MAX_ANSWER_LENGTH s"
  shows "(gc (question_messages '''') (MAX_TOKENS s) (TEMPERATURE s) 1 st
            = (Inr (Some ''N/A''), st')
          \<longrightarrow> get_coding_answer_with gc s '''' st = (Inr ''N/A'', st'))
         \<and> (missing_vars s = [] \<and> LANGCHAIN_AVAILABLE w
             \<and> chat_completions_create w (length (calls st)) (test_request s) = Inr r
             \<and> invoke w (Suc (length (calls st)))
                  (Invoke (configured_llm s) (question_messages '''')) = Inr (Some ''N/A'')
          \<longrightarrow> fst (get_coding_answer w s '''' st) = Inr ''N/A''
              \<and> calls (snd (get_coding_answer w s '''' st))
                  = calls st @ [test_request s,
                                Invoke (configured_llm s) (question_messages '''')])
         \<and> content (last (question_messages '''')) = ''Answer this coding interview question: ''"
proof (intro conjI impI)
  show "get_coding_answer_with gc s '''' st = (Inr ''N/A'', st')"
    if "gc (question_messages '''') (MAX_TOKENS s) (TEMPERATURE s) 1 st
          = (Inr (Some ''N/A''), st')"
    using that assms by (simp add: get_coding_answer_with_def fit_touch_bar_def)
  show "content (last (question_messages '''')) = ''Answer this coding interview question: ''"
    by (simp add: question_messages_def)
next
  assume h: "missing_vars s = [] \<and> LANGCHAIN_AVAILABLE w
             \<and> chat_completions_create w (length (calls st)) (test_request s) = Inr r
             \<and> invoke w (Suc (length (calls st)))
                  (Invoke (configured_llm s) (question_messages '''')) = Inr (Some ''N/A'')"
  then have llm: "get_llm w s False st
           = (Inr (Some (configured_llm s)),
              scrub_environ s st\<lparr>calls := calls st @ [test_request s]\<rparr>)"
    by (simp add: get_llm_first_attempt)
  have gen: "generate_completion w s (question_messages '''') (MAX_TOKENS s) (TEMPERATURE s) 1 st
          = (Inr (Some ''N/A''),
             scrub_environ s st
               \<lparr>calls := calls st @ [test_request s,
                                      Invoke (configured_llm s) (question_messages '''')]\<rparr>)"
    using h
    by (simp add: generate_completion_def generate_completion_with_def
        generate_completion_body_def llm outbound_invoke_def configured_llm_def)
  show "fst (get_coding_answer w s '''' st) = Inr ''N/A''"
    using gen assms
    by (simp add: get_coding_answer_def get_coding_answer_with_def fit_touch_bar_def)
  show "calls (snd (get_coding_answer w s '''' st))
          = calls st @ [test_request s, Invoke (configured_llm s) (question_messages '''')]"
    using gen by (simp add: get_coding_answer_def get_coding_answer_with_def)
qed

theorem empty_question_still_asks_witness:
  "3 \<le> MAX_ANSWER_LENGTH (test_settings base_url 200)
   \<and> get_coding_answer_with (mock_generate_completion (Inr (Some ''N/A'')))
        (test_settings base_url 200) '''' fresh_state
       = (Inr ''N/A'', fresh_state)
   \<and> fst (get_coding_answer
            (scripted_world True True [Inr [Some ''Hello'']] (Inr (Some ''N/A'')))
            (test_settings base_url 200) '''' fresh_state)
       = Inr ''N/A''
   \<and> calls (snd (get_coding_answer
                   (scripted_world True True [Inr [Some ''Hello'']] (Inr (Some ''N/A'')))
                   (test_settings base_url 200) '''' fresh_state))
       = [test_request (test_settings base_url 200),
          Invoke (configured_llm (test_settings base_url 200)) (question_messages '''')]"
  using empty_question_still_asks [where
      w = "scripted_world True True [Inr [Some ''Hello'']] (Inr (Some ''N/A''))"
      and s = "test_settings base_url 200" and st = fresh_state and r = "[Some ''Hello'']"
      and gc = "mock_generate_completion (Inr (Some ''N/A''))" and st' = fresh_state]
  by (simp add: test_settings_valid base_url_def scripted_world_def fresh_state_def
      mock_generate_completion_def)
     (simp add: test_settings_def)

text \<open>Claim C8 as stated fails for a budget below 3: with \<^verbatim>\<open>MAX_ANSWER_LENGTH = 2\<close> the
  three characters of the answer exceed the budget and are cut.\<close>

theorem empty_question_still_asks_counterexample:
  "fst (get_coding_answer (scripted_world True True [Inr [Some ''Hello'']] (Inr (Some ''N/A'')))
          (test_settings base_url 2) '''' fresh_state)
     = Inr ''N/...''"
  by code_simp

subsection \<open>The endpoint of the clients\<close>

text \<open>
  Claim C9 does not hold of the code. For an endpoint with a path below the base URL,
  \<^verbatim>\<open>get_llm\<close> extracts the base URL and passes it to \<^verbatim>\<open>_create_azure_llm_with_retry\<close>, which
  does not read it: the client of the connectivity check and the model that is returned
  are both built from the configured endpoint, path included.
\<close>

theorem deep_endpoint_reaches_client:
  "clean_endpoint deep_endpoint = ''https://test.openai.azure.com''
   \<and> fst (get_llm (scripted_world True True [Inr [Some ''Hello'']] (Inr None))
            (test_settings deep_endpoint 200) False fresh_state)
       = Inr (Some (AzureChatOpenAI ''test_deployment'' ''2024-02-15-preview'' deep_endpoint
                ''test_key'' (7 / 10) 60 ''azure/test_deployment''))
   \<and> map (azure_endpoint \<circ> via)
        (calls (snd (get_llm (scripted_world True True [Inr [Some ''Hello'']] (Inr None))
                       (test_settings deep_endpoint 200) False fresh_state)))
       = [deep_endpoint]
   \<and> deep_endpoint \<noteq> ''https://test.openai.azure.com''"
proof -
  have v: "missing_vars (test_settings deep_endpoint 200) = []"
    by (simp add: test_settings_valid deep_endpoint_def)
  have "get_llm (scripted_world True True [Inr [Some ''Hello'']] (Inr None))
            (test_settings deep_endpoint 200) False fresh_state
        = (Inr (Some (configured_llm (test_settings deep_endpoint 200))),
           scrub_environ (test_settings deep_endpoint 200) fresh_state
             \<lparr>calls := calls fresh_state @ [test_request (test_settings deep_endpoint 200)]\<rparr>)"
    by (rule get_llm_first_attempt [OF v, where r = "[Some ''Hello'']"])
       (simp_all add: scripted_world_def fresh_state_def)
  then show ?thesis
    by (simp add: clean_deep_endpoint configured_llm_def test_settings_def test_request_def
        fresh_state_def) (simp add: deep_endpoint_def)
qed

subsection \<open>\<^verbatim>\<open>generate_completion\<close> absorbs every failure\<close>

text \<open>
  Claim C10, as amended. \<^verbatim>\<open>generate_completion\<close> returns and does not raise, for every
  message list and every way of obtaining the client. It returns \<^verbatim>\<open>None\<close> whenever the
  body of its \<^verbatim>\<open>try\<close> raises: when \<^verbatim>\<open>get_llm\<close> raises, so with an incomplete configuration,
  where the state does not change; when \<^verbatim>\<open>invoke\<close> raises and the request of the raw
  fallback raises too or answers without a choice; and when the request on a raw client
  raises. When \<^verbatim>\<open>invoke\<close> raises and the raw fallback answers, it returns the content of
  the first choice. \<^verbatim>\<open>get_coding_answer\<close> answers a \<^verbatim>\<open>None\<close> with the fixed message asking to
  try again, not with the connection message.
\<close>

theorem generate_completion_never_raises:
  "(\<exists>r st'. generate_completion_with gl w s msgs max_tok temp tp st = (Inr r, st'))
   \<and> (isl (fst (generate_completion_body gl w s msgs max_tok temp tp st))
        \<longrightarrow> fst (generate_completion_with gl w s msgs max_tok temp tp st) = Inr None)
   \<and> (isl (fst (get_llm w s False st))
        \<longrightarrow> generate_completion w s msgs max_tok temp tp st
              = (Inr None, snd (get_llm w s False st)))
   \<and> (missing_vars s \<noteq> []
        \<longrightarrow> generate_completion w s msgs max_tok temp tp st = (Inr None, st))
   \<and> (fst (gl st) = Inr (Some client) \<and> hasattr_invoke client
        \<and> invoke w (length (calls (snd (gl st)))) (Invoke client msgs) = Inl e1
        \<and> chat_completions_create w (Suc (length (calls (snd (gl st)))))
             (fallback_request s msgs max_tok temp tp) = Inl e2
        \<longrightarrow> fst (generate_completion_with gl w s msgs max_tok temp tp st) = Inr None)
   \<and> (fst (gl st) = Inr (Some client) \<and> hasattr_invoke client
        \<and> invoke w (length (calls (snd (gl st)))) (Invoke client msgs) = Inl e1
        \<and> chat_completions_create w (Suc (length (calls (snd (gl st)))))
             (fallback_request s msgs max_tok temp tp) = Inr []
        \<longrightarrow> fst (generate_completion_with gl w s msgs max_tok temp tp st) = Inr None)
   \<and> (fst (gl st) = Inr (Some client) \<and> hasattr_invoke client
        \<and> invoke w (length (calls (snd (gl st)))) (Invoke client msgs) = Inl e1
        \<and> chat_completions_create w (Suc (length (calls (snd (gl st)))))
             (fallback_request s msgs max_tok temp tp) = Inr (c # cs)
        \<longrightarrow> fst (generate_completion_with gl w s msgs max_tok temp tp st) = Inr c)
   \<and> (fst (gl st) = Inr (Some client) \<and> \<not> hasattr_invoke client
        \<and> chat_completions_create w (length (calls (snd (gl st))))
             (ChatCompletionsCreate client msgs max_tok temp tp
                (AZURE_OPENAI_DEPLOYMENT_NAME s) 60) = Inl e2
        \<longrightarrow> fst (generate_completion_with gl w s msgs max_tok temp tp st) = Inr None)
   \<and> (fst (gc (question_messages q) (MAX_TOKENS s) (TEMPERATURE s) 1 st) = Inr None
        \<longrightarrow> fst (get_coding_answer_with gc s q st)
              = Inr ''Unable to generate answer. Please try again.'')"
proof -
  let ?gen = "generate_completion_with gl w s msgs max_tok temp tp st"
  have 1: "\<exists>r st'. ?gen = (Inr r, st')"
    by (simp add: generate_completion_with_def split: prod.split sum.split)
  have 2: "fst ?gen = Inr None"
    if "isl (fst (generate_completion_body gl w s msgs max_tok temp tp st))"
    using that by (auto simp add: generate_completion_with_def split: prod.split sum.split)
  have 3: "generate_completion w s msgs max_tok temp tp st
             = (Inr None, snd (get_llm w s False st))"
    if "isl (fst (get_llm w s False st))"
    using that
    by (cases "get_llm w s False st")
       (auto simp add: generate_completion_def completion_client_raises isl_def)
  have 4: "generate_completion w s msgs max_tok temp tp st = (Inr None, st)"
    if "missing_vars s \<noteq> []"
    using that
    by (simp add: generate_completion_def completion_client_raises get_llm_def get_llm_body_def)
  have fallback: "fst ?gen
      = (case chat_completions_create w (Suc (length (calls (snd (gl st)))))
                (fallback_request s msgs max_tok temp tp) of
           Inl e2 \<Rightarrow> Inr None | Inr [] \<Rightarrow> Inr None | Inr (c # cs) \<Rightarrow> Inr c)"
    if "fst (gl st) = Inr (Some client)" and "hasattr_invoke client"
      and "invoke w (length (calls (snd (gl st)))) (Invoke client msgs) = Inl e1"
    using that by (cases "gl st") (simp add: completion_invoke_raises)
  have raw: "fst ?gen
      = (case chat_completions_create w (length (calls (snd (gl st))))
                (ChatCompletionsCreate client msgs max_tok temp tp
                   (AZURE_OPENAI_DEPLOYMENT_NAME s) 60) of
           Inl e2 \<Rightarrow> Inr None | Inr [] \<Rightarrow> Inr None | Inr (c # cs) \<Rightarrow> Inr c)"
    if "fst (gl st) = Inr (Some client)" and "\<not> hasattr_invoke client"
    using that by (cases "gl st") (simp add: completion_raw_client)
  have 9: "fst (get_coding_answer_with gc s q st)
             = Inr ''Unable to generate answer. Please try again.''"
    if "fst (gc (question_messages q) (MAX_TOKENS s) (TEMPERATURE s) 1 st) = Inr None"
    using that
    by (cases "gc (question_messages q) (MAX_TOKENS s) (TEMPERATURE s) 1 st")
       (simp add: get_coding_answer_with_def fit_touch_bar_None)
  show ?thesis
    using 1 2 3 4 9 fallback raw by simp
qed

text \<open>A service without an endpoint; a verified connection on which \<^verbatim>\<open>invoke\<close> raises and
  the raw fallback raises, answers without a choice, or answers; and a raw client, handed
  over by a replaced \<^verbatim>\<open>get_llm\<close>, whose request raises.\<close>

theorem generate_completion_never_raises_witness:
  "missing_vars (test_settings '''' 200) \<noteq> []
   \<and> isl (fst (get_llm (scripted_world True True [] (Inr None)) (test_settings '''' 200)
                 False fresh_state))
   \<and> generate_completion (scripted_world True True [] (Inr None)) (test_settings '''' 200)
        (question_messages ''Two sum?'') 1000 (7 / 10) 1 fresh_state
       = (Inr None, fresh_state)
   \<and> fst (get_coding_answer (scripted_world True True [] (Inr None)) (test_settings '''' 200)
            ''Two sum?'' fresh_state)
       = Inr ''Unable to generate answer. Please try again.''
   \<and> fst (generate_completion
            (scripted_world True True [Inr [Some ''Hello'']]
               (Inl (Exception ''LangChain failed'')))
            (test_settings base_url 200) (question_messages ''Two sum?'') 1000 (7 / 10) 1
            fresh_state)
       = Inr None
   \<and> fst (generate_completion
            (scripted_world True True [Inr [Some ''Hello''], Inr [], Inr []]
               (Inl (Exception ''LangChain failed'')))
            (test_settings base_url 200) (question_messages ''Two sum?'') 1000 (7 / 10) 1
            fresh_state)
       = Inr None
   \<and> fst (generate_completion
            (scripted_world True True [Inr [Some ''Hello''], Inr [], Inr [Some ''Two pointers'']]
               (Inl (Exception ''LangChain failed'')))
            (test_settings base_url 200) (question_messages ''Two sum?'') 1000 (7 / 10) 1
            fresh_state)
       = Inr (Some ''Two pointers'')
   \<and> fst (generate_completion_with
            (mock_get_llm (Inr (Some (AzureOpenAI ''2024-02-15-preview'' base_url ''test_key'' 60))))
            (scripted_world True True [] (Inr None))
            (test_settings base_url 200) (question_messages ''Two sum?'') 1000 (7 / 10) 1
            fresh_state)
       = Inr None"
proof -
  let ?Sempty = "test_settings '''' 200"
  let ?S = "test_settings base_url 200"
  let ?Wdown = "scripted_world True True [] (Inr None)"
  let ?m = "question_messages ''Two sum?''"
  let ?boom = "Inl (Exception ''LangChain failed'') :: exn + string option"
  let ?raw = "AzureOpenAI ''2024-02-15-preview'' base_url ''test_key'' 60"
  have m0: "missing_vars ?Sempty \<noteq> []"
    by (simp add: missing_vars_def required_vars_def test_settings_def)
  have l0: "isl (fst (get_llm ?Wdown ?Sempty False fresh_state))"
    using m0 by (simp add: get_llm_def get_llm_body_def)
  have a: "generate_completion ?Wdown ?Sempty ?m 1000 (7 / 10) 1 fresh_state = (Inr None, fresh_state)"
    using m0 generate_completion_never_raises [where w = ?Wdown and s = ?Sempty and msgs = ?m
        and max_tok = 1000 and temp = "7 / 10" and tp = 1 and st = fresh_state]
    by simp
  have b: "fst (get_coding_answer ?Wdown ?Sempty ''Two sum?'' fresh_state)
             = Inr ''Unable to generate answer. Please try again.''"
    using a generate_completion_never_raises [where gc = "generate_completion ?Wdown ?Sempty"
        and s = ?Sempty and q = "''Two sum?''" and st = fresh_state]
    by (simp add: get_coding_answer_def test_settings_def)
  have c: "fst (generate_completion (scripted_world True True [Inr [Some ''Hello'']] ?boom)
                  ?S ?m 1000 (7 / 10) 1 fresh_state) = Inr None"
    using generate_completion_never_raises [where
        gl = "get_llm (scripted_world True True [Inr [Some ''Hello'']] ?boom) ?S False"
        and w = "scripted_world True True [Inr [Some ''Hello'']] ?boom" and s = ?S
        and msgs = ?m and max_tok = 1000 and temp = "7 / 10" and tp = 1 and st = fresh_state
        and client = "configured_llm ?S" and ?e1.0 = "Exception ''LangChain failed''"
        and ?e2.0 = "Exception ''Connection failed''"]
    by (simp add: generate_completion_def get_llm_scripted configured_llm_def)
       (simp add: scripted_world_def)
  have d: "fst (generate_completion
                  (scripted_world True True [Inr [Some ''Hello''], Inr [], Inr []] ?boom)
                  ?S ?m 1000 (7 / 10) 1 fresh_state) = Inr None"
    using generate_completion_never_raises [where
        gl = "get_llm (scripted_world True True [Inr [Some ''Hello''], Inr [], Inr []] ?boom)
                ?S False"
        and w = "scripted_world True True [Inr [Some ''Hello''], Inr [], Inr []] ?boom"
        and s = ?S and msgs = ?m and max_tok = 1000 and temp = "7 / 10" and tp = 1
        and st = fresh_state and client = "configured_llm ?S"
        and ?e1.0 = "Exception ''LangChain failed''"]
    by (simp add: generate_completion_def get_llm_scripted configured_llm_def)
       (simp add: scripted_world_def)
  have e: "fst (generate_completion
                  (scripted_world True True
                     [Inr [Some ''Hello''], Inr [], Inr [Some ''Two pointers'']] ?boom)
                  ?S ?m 1000 (7 / 10) 1 fresh_state) = Inr (Some ''Two pointers'')"
    using generate_completion_never_raises [where
        gl = "get_llm (scripted_world True True
                         [Inr [Some ''Hello''], Inr [], Inr [Some ''Two pointers'']] ?boom)
                ?S False"
        and w = "scripted_world True True
                   [Inr [Some ''Hello''], Inr [], Inr [Some ''Two pointers'']] ?boom"
        and s = ?S and msgs = ?m and max_tok = 1000 and temp = "7 / 10" and tp = 1
        and st = fresh_state and client = "configured_llm ?S"
        and ?e1.0 = "Exception ''LangChain failed''" and c = "Some ''Two pointers''"
        and cs = "[]"]
    by (simp add: generate_completion_def get_llm_scripted configured_llm_def)
       (simp add: scripted_world_def)
  have f: "fst (generate_completion_with (mock_get_llm (Inr (Some ?raw))) ?Wdown ?S ?m 1000
                  (7 / 10) 1 fresh_state) = Inr None"
    using generate_completion_never_raises [where gl = "mock_get_llm (Inr (Some ?raw))"
        and w = ?Wdown and s = ?S and msgs = ?m and max_tok = 1000 and temp = "7 / 10"
        and tp = 1 and st = fresh_state and client = ?raw
        and ?e2.0 = "Exception ''Connection failed''"]
    by (simp add: mock_get_llm_def scripted_world_def)
  show ?thesis using m0 l0 a b c d e f by simp
qed

text \<open>Claim C10 as stated fails where the completion request raises and the fallback
  answers: \<^verbatim>\<open>invoke\<close> raised, and the result is the fallback's text, not \<^verbatim>\<open>None\<close>.\<close>

theorem generate_completion_never_raises_counterexample:
  "invoke (scripted_world True True [Inr [Some ''Hello''], Inr [], Inr [Some ''Test response'']]
             (Inl (Exception ''LangChain failed'')))
      1 (Invoke (configured_llm (test_settings base_url 200)) (question_messages ''Two sum?''))
     = Inl (Exception ''LangChain failed'')
   \<and> fst (generate_completion
            (scripted_world True True [Inr [Some ''Hello''], Inr [], Inr [Some ''Test response'']]
               (Inl (Exception ''LangChain failed'')))
            (test_settings base_url 200) (question_messages ''Two sum?'') 1000 (7 / 10) 1
            fresh_state)
       = Inr (Some ''Test response'')
   \<and> fst (get_coding_answer
            (scripted_world True True [Inr [Some ''Hello''], Inr [], Inr [Some ''Test response'']]
               (Inl (Exception ''LangChain failed'')))
            (test_settings base_url 200) ''Two sum?'' fresh_state)
       = Inr ''Test response''"
  by code_simp

end
